theory Spec2Isabelle
  imports Main "HOL-Library.Word"
begin

section \<open>Errors and outcomes\<close>

text \<open>
  Go functions of this repository return an \<open>error\<close> (nil on success), a pair of a value
  and an error, or they panic. An error is modelled by its kind; a message built from the
  text of another error keeps that error as its cause instead of rendering it, because the
  texts of the sentinel errors are fixed by libraries outside the repository.
\<close>

datatype params_Error = params_Error (Message: string) (Code: string)

datatype error =
    ErrAborted                   \<comment> \<open>\<open>txn.ErrAborted\<close>: an assertion of the transaction failed\<close>
  | ErrNotFound                  \<comment> \<open>\<open>mgo.ErrNotFound\<close>: the query matched no document\<close>
  | errNotAlive                  \<comment> \<open>the package variable \<open>errNotAlive\<close>\<close>
  | External string              \<comment> \<open>any other failure of the store or of the network\<close>
  | NotFoundError string         \<comment> \<open>\<open>notFound(format, args...)\<close>, with the arguments formatted in\<close>
  | NotValid string string       \<comment> \<open>\<open>errors.NotValidf(format, arg)\<close>\<close>
  | Errorf string                \<comment> \<open>\<open>fmt.Errorf\<close> / \<open>errors.Errorf\<close> with no error argument\<close>
  | Wrap string error            \<comment> \<open>a plain error whose text is the prefix, \<open>": "\<close> and the text of the cause\<close>
  | ParamsError params_Error     \<comment> \<open>a \<open>*params.Error\<close> returned as an error\<close>

datatype 'a outcome = Return 'a | Panic string

section \<open>Formatting\<close>

text \<open>\<open>strconv.Itoa\<close>: the decimal digits of an integer, with a minus sign when negative.\<close>

definition digit :: "nat \<Rightarrow> char" where
  "digit d = ''0123456789'' ! (d mod 10)"

fun digits :: "nat \<Rightarrow> string" where
  "digits n = (if n < 10 then [digit n] else digits (n div 10) @ [digit (n mod 10)])"

declare digits.simps [simp del]

definition Itoa :: "int \<Rightarrow> string" where
  "Itoa i = (if i < 0 then CHR ''-'' # digits (nat (- i)) else digits (nat i))"

section \<open>The data model of package state\<close>

datatype Life = Alive | Dying | Dead

text \<open>\<open>Life\<close> is an integer type in Go whose constants are declared in this order.\<close>

fun Life_val :: "Life \<Rightarrow> nat" where
  "Life_val Alive = 0"
| "Life_val Dying = 1"
| "Life_val Dead = 2"

text \<open>
  \<open>Tools\<close> is declared in another file of package state; \<open>machine.go\<close> reads its fields
  \<open>Series\<close> and \<open>Arch\<close>. \<open>Rest\<close> stands for whatever else the struct holds.
\<close>

record Tools =
  Series :: string
  Arch :: string
  Rest :: string

type_synonym WorkerKind = string

text \<open>
  \<open>machineDoc\<close>. The field \<open>Tools\<close> is a pointer in memory and an embedded document in the
  store, so the record is parametric in what stands for the tools: an address for the
  snapshot cached in a handle, a \<open>Tools\<close> value for a stored document. \<open>Id\<close> is a Go
  \<open>int\<close>, on which no arithmetic is done: an integer here. \<open>TxnRevno\<close> is an \<open>int64\<close>.
\<close>

record 't machineDoc =
  Id_doc :: int
  InstanceId :: string
  Principals :: "string list"
  Life :: Life
  Tools :: "'t option"
  TxnRevno :: "64 word"
  Workers :: "WorkerKind list"

subsection \<open>Memory\<close>

text \<open>
  \<open>*Tools\<close> pointers are addresses into a heap of \<open>Tools\<close> objects; the nil pointer is
  \<open>None\<close>. \<open>top\<close> is the next unused address: the objects in use live below it, and
  \<open>new\<close> (Go's \<open>&v\<close> of a fresh local) never returns an address in use.
\<close>

type_synonym addr = nat

record heap =
  cells :: "addr \<Rightarrow> Tools"
  top :: addr

definition new :: "Tools \<Rightarrow> heap \<Rightarrow> addr \<times> heap" where
  "new v h = (top h, h\<lparr>cells := (cells h)(top h := v), top := Suc (top h)\<rparr>)"

subsection \<open>The store\<close>

datatype assertion =
    notDead                      \<comment> \<open>the package variable \<open>notDead\<close>: \<open>life\<close> is not \<open>Dead\<close>\<close>
  | lifeBelow Life               \<comment> \<open>\<open>life\<close> is less than the given value\<close>

datatype update =
    set_tools Tools              \<comment> \<open>\<open>{"$set": {"tools": t}}\<close>, \<open>t\<close> marshalled when submitted\<close>
  | set_instanceid string        \<comment> \<open>\<open>{"$set": {"instanceid": id}}\<close>\<close>
  | set_life Life                \<comment> \<open>\<open>{"$set": {"life": l}}\<close>\<close>

record Op =
  C :: string
  Id_op :: int
  Assert :: "assertion option"
  Update :: update

datatype access = RunTxn "Op list" | FindOne string int

text \<open>A collection has a name and holds each document under its \<open>_id\<close>.\<close>

record Collection =
  Name :: string
  docs :: "int \<rightharpoonup> Tools machineDoc"

text \<open>
  \<open>State\<close>, as far as \<open>Machine\<close> uses it: the machines collection, the presence watcher's
  subscriptions, and two fields of the model: \<open>fault\<close>, the failure with which the store
  answers every request while it is unreachable, and \<open>accesses\<close>, the requests sent to
  the store so far.
\<close>

record State =
  machines :: Collection
  pwatcher :: "string list"
  fault :: "string option"
  accesses :: "access list"

text \<open>
  \<open>Machine\<close>. In Go \<open>st\<close> points to the \<open>State\<close> shared by all handles; the model follows
  one handle and keeps the state it points to inside it, returned updated by each method.
\<close>

record Machine =
  st :: State
  doc :: "addr machineDoc"

section \<open>The collaborators of \<open>Machine\<close>\<close>

subsection \<open>Document store and transaction runner\<close>

text \<open>
  Modelled from the spec: the transaction runner behind \<open>m.st.runner.Run(ops, "", nil)\<close>
  is a library that \<open>machine.go\<close> only calls. Following sections 3, 4.2 and 6 of the
  spec, it applies the operations atomically: when the store cannot be reached the
  failure is returned; when an assertion does not hold of the current document, or the
  asserted document is missing, the result is \<open>ErrAborted\<close>; in both cases nothing is
  written. Otherwise every update is applied and the revision counter of each written
  document is incremented. \<open>holds\<close> evaluates an assertion on a document, \<open>apply_update\<close>
  an update; \<open>asserted\<close> and \<open>apply_op\<close> do so for one operation of a transaction.
\<close>

fun holds :: "assertion \<Rightarrow> Tools machineDoc \<Rightarrow> bool" where
  "holds notDead d = (Life d \<noteq> Dead)"
| "holds (lifeBelow l) d = (Life_val (Life d) < Life_val l)"

fun apply_update :: "update \<Rightarrow> Tools machineDoc \<Rightarrow> Tools machineDoc" where
  "apply_update (set_tools t) d = d\<lparr>Tools := Some t\<rparr>"
| "apply_update (set_instanceid i) d = d\<lparr>InstanceId := i\<rparr>"
| "apply_update (set_life l) d = d\<lparr>Life := l\<rparr>"

definition lookup :: "Collection \<Rightarrow> string \<Rightarrow> int \<Rightarrow> Tools machineDoc option" where
  "lookup c name i = (if name = Name c then docs c i else None)"

definition asserted :: "Collection \<Rightarrow> Op \<Rightarrow> bool" where
  "asserted c op =
     (case Assert op of
        None \<Rightarrow> True
      | Some a \<Rightarrow> (case lookup c (C op) (Id_op op) of None \<Rightarrow> False | Some d \<Rightarrow> holds a d))"

definition apply_op :: "Op \<Rightarrow> Collection \<Rightarrow> Collection" where
  "apply_op op c =
     (case lookup c (C op) (Id_op op) of
        None \<Rightarrow> c
      | Some d \<Rightarrow>
          c\<lparr>docs := (docs c)(Id_op op \<mapsto> (apply_update (Update op) d)\<lparr>TxnRevno := TxnRevno d + 1\<rparr>)\<rparr>)"

definition Run :: "Op list \<Rightarrow> State \<Rightarrow> error option \<times> State" where
  "Run ops s =
     (let s' = s\<lparr>accesses := accesses s @ [RunTxn ops]\<rparr> in
      case fault s of
        Some msg \<Rightarrow> (Some (External msg), s')
      | None \<Rightarrow>
          if list_all (asserted (machines s)) ops
          then (None, s'\<lparr>machines := fold apply_op ops (machines s)\<rparr>)
          else (Some ErrAborted, s'))"

text \<open>
  Modelled from the spec: \<open>m.st.machines.FindId(id).One(&doc)\<close>, the point lookup of
  section 2 and 6: the document with that id, \<open>ErrNotFound\<close> when there is none, or
  the failure of the store.
\<close>

definition FindId_One :: "int \<Rightarrow> State \<Rightarrow> (error + Tools machineDoc) \<times> State" where
  "FindId_One i s =
     (let s' = s\<lparr>accesses := accesses s @ [FindOne (Name (machines s)) i]\<rparr> in
      case fault s of
        Some msg \<Rightarrow> (Inl (External msg), s')
      | None \<Rightarrow> (case docs (machines s) i of None \<Rightarrow> (Inl ErrNotFound, s') | Some d \<Rightarrow> (Inr d, s')))"

text \<open>
  Unmarshalling a stored document into a \<open>machineDoc\<close> allocates a new \<open>Tools\<close> object
  when the document has tools; \<open>contents\<close> reads a cached snapshot back as a document.
\<close>

definition with_Tools :: "'s machineDoc \<Rightarrow> 't option \<Rightarrow> 't machineDoc" where
  "with_Tools d t =
     \<lparr>Id_doc = Id_doc d, InstanceId = InstanceId d, Principals = Principals d, Life = Life d,
      Tools = t, TxnRevno = TxnRevno d, Workers = Workers d\<rparr>"

definition unmarshal :: "Tools machineDoc \<Rightarrow> heap \<Rightarrow> addr machineDoc \<times> heap" where
  "unmarshal d h =
     (case Tools d of
        None \<Rightarrow> (with_Tools d None, h)
      | Some t \<Rightarrow> (case new t h of (a, h') \<Rightarrow> (with_Tools d (Some a), h')))"

definition contents :: "heap \<Rightarrow> addr machineDoc \<Rightarrow> Tools machineDoc" where
  "contents h d = with_Tools d (map_option (cells h) (Tools d))"

subsection \<open>Helpers of the repository that are declared elsewhere\<close>

text \<open>
  Modelled from the spec: \<open>trivial.ErrorContextf(&err, format, args...)\<close> is defined in
  package trivial, which \<open>machine.go\<close> only calls. Following section 7 (errors are
  wrapped with entity-identifying context, never swallowed), it leaves nil alone and
  puts the formatted context in front of any other error.
\<close>

definition ErrorContextf :: "error option \<Rightarrow> string \<Rightarrow> error option" where
  "ErrorContextf err ctx = (case err of None \<Rightarrow> None | Some e \<Rightarrow> Some (Wrap ctx e))"

text \<open>
  Modelled from the spec: \<open>onAbort(txnErr, err)\<close> is defined in another file of package
  state. Following section 4.2 (an aborted transaction is a distinguishable
  condition), it replaces \<open>ErrAborted\<close> by \<open>err\<close> and returns any other error as it is.
\<close>

definition onAbort :: "error \<Rightarrow> error \<Rightarrow> error" where
  "onAbort txnErr err = (if txnErr = ErrAborted then err else txnErr)"

text \<open>
  Modelled from the spec: \<open>ensureDying\<close> and \<open>ensureDead\<close> are defined in another file of
  package state. Following section 4.1, each is one conditional transaction that asserts
  that the current \<open>Life\<close> is less than the target and sets \<open>Life\<close> to the target. When
  the assertion fails because \<open>Life\<close> is already at or past the target the operation
  succeeds without writing; when it fails because the document no longer exists the
  result is a not-found error. Other failures are returned with context. The collection
  argument of the calls is the machines collection, the only one of the model, and the
  two last arguments of \<open>ensureDead\<close> (nil and the empty string in \<open>machine.go\<close>) are
  left out.
\<close>

definition ensureLife :: "Life \<Rightarrow> State \<Rightarrow> int \<Rightarrow> string \<Rightarrow> error option \<times> State" where
  "ensureLife target s i desc =
     (case Run [\<lparr>C = Name (machines s), Id_op = i, Assert = Some (lifeBelow target),
                 Update = set_life target\<rparr>] s of
        (None, s1) \<Rightarrow> (None, s1)
      | (Some e, s1) \<Rightarrow>
          if e = ErrAborted
          then (case FindId_One i s1 of
                  (Inr d, s2) \<Rightarrow> (None, s2)
                | (Inl e2, s2) \<Rightarrow>
                    if e2 = ErrNotFound then (Some (NotFoundError (desc @ '' '' @ Itoa i)), s2)
                    else (Some (Wrap (desc @ '' '' @ Itoa i) e2), s2))
          else (Some (Wrap (desc @ '' '' @ Itoa i) e), s1))"

definition ensureDying :: "State \<Rightarrow> int \<Rightarrow> string \<Rightarrow> error option \<times> State" where
  "ensureDying = ensureLife Dying"

definition ensureDead :: "State \<Rightarrow> int \<Rightarrow> string \<Rightarrow> error option \<times> State" where
  "ensureDead = ensureLife Dead"

text \<open>
  Modelled from the spec: the presence watcher's \<open>Watch(key, ch)\<close> and \<open>Unwatch(key, ch)\<close>
  are defined in package presence, which \<open>machine.go\<close> only calls. Following section 5,
  \<open>Watch\<close> registers a subscription under the key and \<open>Unwatch\<close> removes it again.
\<close>

definition Watch :: "string \<Rightarrow> State \<Rightarrow> State" where
  "Watch key s = s\<lparr>pwatcher := key # pwatcher s\<rparr>"

definition Unwatch :: "string \<Rightarrow> State \<Rightarrow> State" where
  "Unwatch key s = s\<lparr>pwatcher := remove1 key (pwatcher s)\<rparr>"

section \<open>Machine\<close>

definition newMachine :: "State \<Rightarrow> addr machineDoc \<Rightarrow> Machine" where
  "newMachine s d = \<lparr>st = s, doc = d\<rparr>"

definition String :: "Machine \<Rightarrow> string" where
  "String m = Itoa (Id_doc (doc m))"

definition globalKey :: "Machine \<Rightarrow> string" where
  "globalKey m = ''m#'' @ String m"

text \<open>The method \<open>Life()\<close>; the suffix tells it from the field it reads.\<close>

definition Life_M :: "Machine \<Rightarrow> Life" where
  "Life_M m = Life (doc m)"

text \<open>
  \<open>AgentTools\<close>: \<open>tools := *m.doc.Tools; return &tools, nil\<close> copies the object into a
  new one and returns the address of the copy.
\<close>

definition AgentTools :: "Machine \<Rightarrow> heap \<Rightarrow> (error + addr) \<times> heap" where
  "AgentTools m h =
     (case Tools (doc m) of
        None \<Rightarrow> (Inl (NotFoundError (''agent tools for machine '' @ String m)), h)
      | Some a \<Rightarrow> (case new (cells h a) h of (p, h') \<Rightarrow> (Inr p, h')))"

text \<open>
  \<open>SetAgentTools\<close>. The argument is a pointer: reading \<open>t.Series\<close> through nil panics.
  The deferred \<open>ErrorContextf\<close> puts the context in front of every error returned.
\<close>

definition SetAgentTools ::
  "Machine \<Rightarrow> addr option \<Rightarrow> heap \<Rightarrow> error option outcome \<times> Machine \<times> heap" where
  "SetAgentTools m t h =
     (let ctx = ''cannot set agent tools for machine '' @ String m in
      case t of
        None \<Rightarrow> (Panic ''runtime error: invalid memory address or nil pointer dereference'', m, h)
      | Some a \<Rightarrow>
          if Series (cells h a) = '''' \<or> Arch (cells h a) = ''''
          then (Return (ErrorContextf (Some (Errorf ''empty series or arch'')) ctx), m, h)
          else
            (case Run [\<lparr>C = Name (machines (st m)), Id_op = Id_doc (doc m),
                        Assert = Some notDead, Update = set_tools (cells h a)\<rparr>] (st m) of
               (Some err, s) \<Rightarrow>
                 (Return (ErrorContextf (Some (onAbort err errNotAlive)) ctx), m\<lparr>st := s\<rparr>, h)
             | (None, s) \<Rightarrow>
                 (case new (cells h a) h of
                    (p, h') \<Rightarrow>
                      (Return (ErrorContextf None ctx),
                       m\<lparr>st := s, doc := (doc m)\<lparr>Tools := Some p\<rparr>\<rparr>, h'))))"

definition EnsureDying :: "Machine \<Rightarrow> error option \<times> Machine" where
  "EnsureDying m =
     (case ensureDying (st m) (Id_doc (doc m)) ''machine'' of
        (Some err, s) \<Rightarrow> (Some err, m\<lparr>st := s\<rparr>)
      | (None, s) \<Rightarrow> (None, m\<lparr>st := s, doc := (doc m)\<lparr>Life := Dying\<rparr>\<rparr>))"

definition EnsureDead :: "Machine \<Rightarrow> error option \<times> Machine" where
  "EnsureDead m =
     (case ensureDead (st m) (Id_doc (doc m)) ''machine'' of
        (Some err, s) \<Rightarrow> (Some err, m\<lparr>st := s\<rparr>)
      | (None, s) \<Rightarrow> (None, m\<lparr>st := s, doc := (doc m)\<lparr>Life := Dead\<rparr>\<rparr>))"

definition Refresh :: "Machine \<Rightarrow> heap \<Rightarrow> error option \<times> Machine \<times> heap" where
  "Refresh m h =
     (case FindId_One (Id_doc (doc m)) (st m) of
        (Inl err, s) \<Rightarrow>
          if err = ErrNotFound
          then (Some (NotFoundError (''machine '' @ String m)), m\<lparr>st := s\<rparr>, h)
          else (Some (Wrap (''cannot refresh machine '' @ String m) err), m\<lparr>st := s\<rparr>, h)
      | (Inr d, s) \<Rightarrow> (case unmarshal d h of (d', h') \<Rightarrow> (None, m\<lparr>st := s, doc := d'\<rparr>, h')))"

text \<open>
  \<open>WaitAgentAlive\<close>. Each \<open>select\<close> of the loop blocks until one of its three cases
  fires; the list gives, for each round, the case that fires first. The duration of the
  timeout is not modelled: the timer is always armed, so a round for which the list has
  nothing left ends by the timer.
\<close>

datatype select =
    Change bool                  \<comment> \<open>\<open>case change := <-ch\<close>, with \<open>change.Alive\<close>\<close>
  | TimeAfter                    \<comment> \<open>\<open>case <-time.After(timeout)\<close>\<close>
  | PWatcherDead "error option"  \<comment> \<open>\<open>case <-m.st.pwatcher.Dead()\<close>, with what \<open>Err()\<close> returns\<close>

fun WaitAgentAlive_for :: "Machine \<Rightarrow> nat \<Rightarrow> select list \<Rightarrow> error option outcome" where
  "WaitAgentAlive_for m i sel =
     (if i < 2
      then (case sel of
              [] \<Rightarrow> Return (Some (Errorf ''still not alive after timeout''))
            | Change alive # sel' \<Rightarrow>
                if alive then Return None else WaitAgentAlive_for m (i + 1) sel'
            | TimeAfter # sel' \<Rightarrow> Return (Some (Errorf ''still not alive after timeout''))
            | PWatcherDead err # sel' \<Rightarrow> Return err)
      else Panic (''presence reported dead status twice in a row for machine '' @ String m))"

declare WaitAgentAlive_for.simps [simp del]

definition WaitAgentAlive :: "Machine \<Rightarrow> select list \<Rightarrow> error option outcome \<times> Machine" where
  "WaitAgentAlive m sel =
     (let s1 = Watch (globalKey m) (st m);
          r = WaitAgentAlive_for m 0 sel;
          s2 = Unwatch (globalKey m) s1
      in (case r of
            Return err \<Rightarrow> Return (ErrorContextf err (''waiting for agent of machine '' @ String m))
          | Panic msg \<Rightarrow> Panic msg,
          m\<lparr>st := s2\<rparr>))"

text \<open>The method \<open>InstanceId()\<close>; the suffix tells it from the field it reads.\<close>

definition InstanceId_M :: "Machine \<Rightarrow> error + string" where
  "InstanceId_M m =
     (if InstanceId (doc m) = ''''
      then Inl (NotFoundError (''instance id for machine '' @ String m))
      else Inr (InstanceId (doc m)))"

definition SetInstanceId :: "Machine \<Rightarrow> string \<Rightarrow> error option \<times> Machine" where
  "SetInstanceId m i =
     (case Run [\<lparr>C = Name (machines (st m)), Id_op = Id_doc (doc m),
                 Assert = Some notDead, Update = set_instanceid i\<rparr>] (st m) of
        (Some err, s) \<Rightarrow>
          (Some (Wrap (''cannot set instance id of machine '' @ String m)
                   (onAbort err errNotAlive)), m\<lparr>st := s\<rparr>)
      | (None, s) \<Rightarrow> (None, m\<lparr>st := s, doc := (doc m)\<lparr>InstanceId := i\<rparr>\<rparr>))"

section \<open>Package remoterelations\<close>

text \<open>
  The types of packages \<open>params\<close> and \<open>names\<close> are declared outside this file.
  A watch result is modelled with its watcher id and its error (the code reads nothing
  else of it), an entity with the tag whose string form it holds.
\<close>

datatype tag = ApplicationTag string

record Entity =
  Tag :: tag

record ApplicationRelationsWatchResult =
  ApplicationRelationsWatcherId :: string
  Error :: "params_Error option"

datatype ApplicationRelationsWatcher =
  NewApplicationRelationsWatcher ApplicationRelationsWatchResult

text \<open>
  Modelled from the spec: the facade caller is defined in package base, which this file
  only calls.
  Following section 1 (the API facade marshals a remote call into typed results),
  \<open>FacadeCall(request, args, &results)\<close> sends the request and returns either an error
  or the results the server answered. \<open>server\<close> is that answer and \<open>requests\<close> the calls
  made so far.
\<close>

record FacadeCaller =
  server :: "string \<Rightarrow> Entity list \<Rightarrow> error + ApplicationRelationsWatchResult list"
  requests :: "(string \<times> Entity list) list"

definition FacadeCall ::
  "FacadeCaller \<Rightarrow> string \<Rightarrow> Entity list \<Rightarrow>
     (error + ApplicationRelationsWatchResult list) \<times> FacadeCaller" where
  "FacadeCall f request args = (server f request args, f\<lparr>requests := requests f @ [(request, args)]\<rparr>)"

text \<open>The \<open>State\<close> of package remoterelations; the suffix tells it from the one of package state.\<close>

record State_rr =
  facade :: FacadeCaller

text \<open>
  \<open>WatchRemoteApplication\<close>. \<open>names.IsValidApplication\<close> belongs to a library outside the
  repository and is a parameter of the model.
\<close>

definition WatchRemoteApplication ::
  "(string \<Rightarrow> bool) \<Rightarrow> State_rr \<Rightarrow> string \<Rightarrow> (error + ApplicationRelationsWatcher) \<times> State_rr" where
  "WatchRemoteApplication IsValidApplication s service =
     (if \<not> IsValidApplication service
      then (Inl (NotValid ''application name %q'' service), s)
      else
        (let serviceTag = ApplicationTag service;
             args = [\<lparr>Tag = serviceTag\<rparr>]
         in case FacadeCall (facade s) ''WatchRemoteApplication'' args of
              (Inl err, f) \<Rightarrow> (Inl err, s\<lparr>facade := f\<rparr>)
            | (Inr results, f) \<Rightarrow>
                if length results \<noteq> 1
                then (Inl (Errorf (''expected 1 result, got '' @ Itoa (int (length results)))),
                      s\<lparr>facade := f\<rparr>)
                else
                  (let result = results ! 0
                   in case Error result of
                        Some e \<Rightarrow> (Inl (ParamsError e), s\<lparr>facade := f\<rparr>)
                      | None \<Rightarrow> (Inr (NewApplicationRelationsWatcher result), s\<lparr>facade := f\<rparr>))))"

section \<open>Notions used in the statements\<close>

text \<open>The transaction a mutator of \<open>Machine\<close> submits: one operation that asserts \<open>notDead\<close>.\<close>

abbreviation txn :: "Machine \<Rightarrow> update \<Rightarrow> Op list" where
  "txn m u \<equiv>
     [\<lparr>C = Name (machines (st m)), Id_op = Id_doc (doc m), Assert = Some notDead, Update = u\<rparr>]"

text \<open>The assignment \<open>*p = v\<close> through a pointer.\<close>

definition assign :: "addr \<Rightarrow> Tools \<Rightarrow> heap \<Rightarrow> heap" where
  "assign p v h = h\<lparr>cells := (cells h)(p := v)\<rparr>"

text \<open>
  An instance of the validity predicate that \<open>WatchRemoteApplication\<close> takes: names made
  of lower-case letters, digits and hyphens, that start with a letter and have a letter
  in every part after a hyphen.
\<close>

definition lower :: "char \<Rightarrow> bool" where
  "lower c = (c \<in> set ''abcdefghijklmnopqrstuvwxyz'')"

definition lower_or_digit :: "char \<Rightarrow> bool" where
  "lower_or_digit c = (lower c \<or> c \<in> set ''0123456789'')"

fun split_hyphen :: "string \<Rightarrow> string list" where
  "split_hyphen [] = [[]]"
| "split_hyphen (c # cs) =
     (if c = CHR ''-'' then [] # split_hyphen cs
      else (case split_hyphen cs of [] \<Rightarrow> [[c]] | w # ws \<Rightarrow> (c # w) # ws))"

definition valid_application_name :: "string \<Rightarrow> bool" where
  "valid_application_name name =
     (case split_hyphen name of
        [] \<Rightarrow> False
      | w # ws \<Rightarrow>
          (case w of [] \<Rightarrow> False | c # cs \<Rightarrow> lower c \<and> list_all lower_or_digit cs) \<and>
          list_all (\<lambda>v. list_all lower_or_digit v \<and> list_ex lower v) ws)"

section \<open>Example configurations\<close>

definition tools0 :: Tools where
  "tools0 = \<lparr>Series = ''precise'', Arch = ''amd64'', Rest = ''1.9.0''\<rparr>"

definition tools_no_series :: Tools where
  "tools_no_series = \<lparr>Series = '''', Arch = ''amd64'', Rest = ''1.9.0''\<rparr>"

definition doc0 :: "Tools machineDoc" where
  "doc0 = \<lparr>Id_doc = 0, InstanceId = '''', Principals = [], Life = Alive, Tools = None,
           TxnRevno = 0, Workers = []\<rparr>"

text \<open>A store that holds machine 0, alive; the same store with the machine dead, with
  the machine removed, and unreachable.\<close>

definition st0 :: State where
  "st0 = \<lparr>machines = \<lparr>Name = ''machines'', docs = [0 \<mapsto> doc0]\<rparr>, pwatcher = [],
          fault = None, accesses = []\<rparr>"

definition st_dead :: State where
  "st_dead = st0\<lparr>machines := \<lparr>Name = ''machines'', docs = [0 \<mapsto> doc0\<lparr>Life := Dead\<rparr>]\<rparr>\<rparr>"

definition st_gone :: State where
  "st_gone = st0\<lparr>machines := \<lparr>Name = ''machines'', docs = Map.empty\<rparr>\<rparr>"

definition st_down :: State where
  "st_down = st0\<lparr>fault := Some ''connection refused''\<rparr>"

text \<open>A heap with no object, and one that holds \<open>tools0\<close> at address 0 and
  \<open>tools_no_series\<close> at address 1.\<close>

definition h0 :: heap where
  "h0 = \<lparr>cells = (\<lambda>a. \<lparr>Series = '''', Arch = '''', Rest = ''''\<rparr>), top = 0\<rparr>"

definition h2 :: heap where
  "h2 = snd (new tools_no_series (snd (new tools0 h0)))"

text \<open>Handles of machine 0 whose snapshot was taken from \<open>doc0\<close>.\<close>

definition m0 :: Machine where
  "m0 = newMachine st0 (with_Tools doc0 None)"

definition m_dead :: Machine where
  "m_dead = newMachine st_dead (with_Tools doc0 None)"

definition m_gone :: Machine where
  "m_gone = newMachine st_gone (with_Tools doc0 None)"

definition m_down :: Machine where
  "m_down = newMachine st_down (with_Tools doc0 None)"

text \<open>A handle whose snapshot has an instance id and points to the tools at address 0.\<close>

definition m_tools :: Machine where
  "m_tools = newMachine st0 ((with_Tools doc0 (Some 0))\<lparr>InstanceId := ''i-1''\<rparr>)"

text \<open>
  Another handle of machine 0, on the state that \<open>SetInstanceId("i-123")\<close> through \<open>m0\<close>
  leaves, with a snapshot that holds an older instance id.
\<close>

definition m_stale :: Machine where
  "m_stale = \<lparr>st = st (snd (SetInstanceId m0 ''i-123'')),
              doc = (with_Tools doc0 None)\<lparr>InstanceId := ''i-old'', Life := Dying\<rparr>\<rparr>"

text \<open>A facade whose server answers every request with the given results.\<close>

definition facade_with :: "error + ApplicationRelationsWatchResult list \<Rightarrow> State_rr" where
  "facade_with answer = \<lparr>facade = \<lparr>server = (\<lambda>request args. answer), requests = []\<rparr>\<rparr>"

definition result_ok :: ApplicationRelationsWatchResult where
  "result_ok = \<lparr>ApplicationRelationsWatcherId = ''1'', Error = None\<rparr>"

definition result_err :: ApplicationRelationsWatchResult where
  "result_err = \<lparr>ApplicationRelationsWatcherId = '''',
                  Error = Some (params_Error ''permission denied'' ''unauthorized access'')\<rparr>"

section \<open>Waiting for the agent\<close>

lemma WaitAgentAlive_for_Nil:
  "i < 2 \<Longrightarrow> WaitAgentAlive_for m i [] = Return (Some (Errorf ''still not alive after timeout''))"
  by (subst WaitAgentAlive_for.simps) simp

lemma WaitAgentAlive_for_Change:
  "i < 2 \<Longrightarrow> WaitAgentAlive_for m i (Change alive # sel) =
     (if alive then Return None else WaitAgentAlive_for m (Suc i) sel)"
  by (subst WaitAgentAlive_for.simps) simp

lemma WaitAgentAlive_for_TimeAfter:
  "i < 2 \<Longrightarrow> WaitAgentAlive_for m i (TimeAfter # sel) =
     Return (Some (Errorf ''still not alive after timeout''))"
  by (subst WaitAgentAlive_for.simps) simp

lemma WaitAgentAlive_for_PWatcherDead:
  "i < 2 \<Longrightarrow> WaitAgentAlive_for m i (PWatcherDead err # sel) = Return err"
  by (subst WaitAgentAlive_for.simps) simp

lemma WaitAgentAlive_for_done:
  "\<not> i < 2 \<Longrightarrow> WaitAgentAlive_for m i sel =
     Panic (''presence reported dead status twice in a row for machine '' @ String m)"
  by (subst WaitAgentAlive_for.simps) simp

lemmas WaitAgentAlive_for_rounds =
  WaitAgentAlive_for_Nil WaitAgentAlive_for_Change WaitAgentAlive_for_TimeAfter
  WaitAgentAlive_for_PWatcherDead WaitAgentAlive_for_done

text \<open>The subscription made by \<open>Watch\<close> is removed again on every path, the panic included.\<close>

lemma WaitAgentAlive_unsubscribes: "snd (WaitAgentAlive m sel) = m"
  by (simp add: WaitAgentAlive_def Watch_def Unwatch_def Let_def)

lemma second_round_success:
  "WaitAgentAlive_for m (Suc 0) sel = Return None \<longleftrightarrow>
     (\<exists>rest. sel = Change True # rest \<or> sel = PWatcherDead None # rest)"
proof (cases sel)
  case Nil
  then show ?thesis by (simp add: WaitAgentAlive_for_rounds)
next
  case (Cons s rest)
  then show ?thesis by (cases s) (auto simp: WaitAgentAlive_for_rounds)
qed

lemma first_round_success:
  "WaitAgentAlive_for m 0 sel = Return None \<longleftrightarrow>
     (\<exists>rest. sel = Change True # rest \<or> sel = Change False # Change True # rest \<or>
             sel = PWatcherDead None # rest \<or> sel = Change False # PWatcherDead None # rest)"
proof (cases sel)
  case Nil
  then show ?thesis by (simp add: WaitAgentAlive_for_rounds)
next
  case (Cons s rest)
  then show ?thesis by (cases s) (auto simp: WaitAgentAlive_for_rounds second_round_success)
qed

lemma WaitAgentAlive_nil_iff:
  "fst (WaitAgentAlive m sel) = Return None \<longleftrightarrow> WaitAgentAlive_for m 0 sel = Return None"
  by (cases "WaitAgentAlive_for m 0 sel")
    (auto simp: WaitAgentAlive_def Let_def ErrorContextf_def split: option.splits)

text \<open>
  Claim C2, as stated: success needs the alive condition over two consecutive
  notifications, so one alive notification right after subscribing is not enough.
  The code returns nil on it: for machine 0, with a single alive notification as the
  only event, \<open>WaitAgentAlive\<close> succeeds.
\<close>

theorem WaitAgentAlive_single_alive_counterexample:
  "fst (WaitAgentAlive m0 [Change True]) = Return None"
  by (simp add: WaitAgentAlive_def Let_def WaitAgentAlive_for_rounds ErrorContextf_def)

text \<open>
  Claim C2, amended: \<open>WaitAgentAlive\<close> does not debounce. It returns nil exactly when an
  alive notification arrives in the first round, or a dead notification arrives in the
  first round and an alive one in the second, or the presence watcher dies in one of
  these two rounds with a nil error. One alive notification is sufficient; a dead
  notification before it costs one of the two rounds and nothing else.
\<close>

theorem WaitAgentAlive_success_iff:
  "fst (WaitAgentAlive m sel) = Return None \<longleftrightarrow>
     (\<exists>rest. sel = Change True # rest \<or> sel = Change False # Change True # rest \<or>
             sel = PWatcherDead None # rest \<or> sel = Change False # PWatcherDead None # rest)"
  unfolding WaitAgentAlive_nil_iff by (rule first_round_success)

text \<open>
  Claim C3: two dead notifications in a row, with no alive one between them, end
  \<open>WaitAgentAlive\<close> in a panic that names the machine. No error value is returned that a
  caller could ignore and no further round is tried: the panic unwinds into the caller,
  whatever the environment would have delivered next.
\<close>

theorem WaitAgentAlive_double_dead_panics:
  "fst (WaitAgentAlive m (Change False # Change False # sel)) =
     Panic (''presence reported dead status twice in a row for machine '' @ String m)"
  by (simp add: WaitAgentAlive_def Let_def WaitAgentAlive_for_rounds)

section \<open>The store and the examples, unfolded\<close>

lemma Run_single:
  "Run [op] s =
     (case fault s of
        Some msg \<Rightarrow> (Some (External msg), s\<lparr>accesses := accesses s @ [RunTxn [op]]\<rparr>)
      | None \<Rightarrow>
          if asserted (machines s) op
          then (None, s\<lparr>accesses := accesses s @ [RunTxn [op]],
                        machines := apply_op op (machines s)\<rparr>)
          else (Some ErrAborted, s\<lparr>accesses := accesses s @ [RunTxn [op]]\<rparr>))"
  by (simp add: Run_def Let_def split: option.splits)

lemma Run_accesses: "accesses (snd (Run ops s)) = accesses s @ [RunTxn ops]"
  by (simp add: Run_def Let_def split: option.splits)

lemmas store_defs =
  Run_single FindId_One_def asserted_def lookup_def apply_op_def Let_def

lemmas example_defs =
  m0_def m_dead_def m_gone_def m_down_def m_tools_def st0_def st_dead_def st_gone_def
  st_down_def doc0_def h0_def h2_def tools0_def tools_no_series_def newMachine_def
  with_Tools_def new_def

lemma String_m0: "String m0 = ''0''"
  by (simp add: String_def Itoa_def digits.simps digit_def example_defs)

section \<open>The lifecycle\<close>

text \<open>
  In the store \<open>Life\<close> only moves forward under \<open>ensureDying\<close> and \<open>ensureDead\<close>: a
  document that exists keeps existing and its \<open>Life\<close> does not decrease.
\<close>

lemma ensureLife_stored_Life_forward:
  assumes "docs (machines s) i = Some d"
  shows "\<exists>d'. docs (machines (snd (ensureLife target s i desc))) i = Some d' \<and>
              Life_val (Life d) \<le> Life_val (Life d')"
  using assms
  by (auto simp: ensureLife_def store_defs split: option.splits prod.splits sum.splits)

lemma ensureLife_Dead_stays:
  assumes "docs (machines s) i = Some d" and "Life d = Dead"
  shows "\<exists>d'. docs (machines (snd (ensureLife target s i desc))) i = Some d' \<and> Life d' = Dead"
proof -
  obtain d' where d': "docs (machines (snd (ensureLife target s i desc))) i = Some d'"
      "Life_val (Life d) \<le> Life_val (Life d')"
    using ensureLife_stored_Life_forward [OF assms(1)] by blast
  with assms(2) have "Life d' = Dead" by (cases "Life d'") simp_all
  with d' show ?thesis by simp
qed

text \<open>
  The handle is another matter: whenever \<open>ensureDying\<close> reports success, \<open>EnsureDying\<close>
  stores \<open>Dying\<close> in the snapshot, whatever the snapshot held before.
\<close>

lemma EnsureDying_success_caches_Dying:
  "fst (EnsureDying m) = None \<Longrightarrow> Life_M (snd (EnsureDying m)) = Dying"
  by (simp add: EnsureDying_def Life_M_def split: prod.splits option.splits)

text \<open>
  Claim C1 says that once \<open>Life\<close> is \<open>Dead\<close> no operation reports it as \<open>Alive\<close> or
  \<open>Dying\<close> again, and that the \<open>Life\<close> cached in a handle never moves back from \<open>Dead\<close>
  over a successful sequence of \<open>EnsureDying\<close> and \<open>EnsureDead\<close> calls. The code does
  otherwise. On the handle of the alive machine 0, \<open>EnsureDead\<close> succeeds and the handle
  reports \<open>Dead\<close>; \<open>EnsureDying\<close> on the same handle then succeeds too, and the handle
  reports \<open>Dying\<close>, while the stored document is still \<open>Dead\<close>.
\<close>

theorem EnsureDying_after_EnsureDead_reports_Dying:
  "fst (EnsureDead m0) = None \<and> Life_M (snd (EnsureDead m0)) = Dead \<and>
   fst (EnsureDying (snd (EnsureDead m0))) = None \<and>
   Life_M (snd (EnsureDying (snd (EnsureDead m0)))) = Dying \<and>
   map_option Life (docs (machines (st (snd (EnsureDying (snd (EnsureDead m0)))))) 0) = Some Dead"
  by (simp add: EnsureDying_def EnsureDead_def ensureDying_def ensureDead_def ensureLife_def
      Life_M_def store_defs example_defs)

section \<open>Refresh and the instance id\<close>

lemma contents_unmarshal: "contents (snd (unmarshal d h)) (fst (unmarshal d h)) = d"
  by (cases "Tools d") (simp_all add: contents_def unmarshal_def new_def with_Tools_def)

lemma InstanceId_unmarshal: "InstanceId (fst (unmarshal d h)) = InstanceId d"
  by (cases "Tools d") (simp_all add: unmarshal_def new_def with_Tools_def)

lemma Refresh_found:
  "fault (st m) = None \<Longrightarrow> docs (machines (st m)) (Id_doc (doc m)) = Some d \<Longrightarrow>
   Refresh m h =
     (None,
      m\<lparr>st := (st m)\<lparr>accesses :=
              accesses (st m) @ [FindOne (Name (machines (st m))) (Id_doc (doc m))]\<rparr>,
        doc := fst (unmarshal d h)\<rparr>,
      snd (unmarshal d h))"
  by (simp add: Refresh_def FindId_One_def Let_def split: prod.splits)

lemma Refresh_missing:
  "fault (st m) = None \<Longrightarrow> docs (machines (st m)) (Id_doc (doc m)) = None \<Longrightarrow>
   Refresh m h =
     (Some (NotFoundError (''machine '' @ String m)),
      m\<lparr>st := (st m)\<lparr>accesses :=
              accesses (st m) @ [FindOne (Name (machines (st m))) (Id_doc (doc m))]\<rparr>\<rparr>,
      h)"
  by (simp add: Refresh_def FindId_One_def Let_def)

lemma Refresh_success_reads_store:
  assumes "fst (Refresh m h) = None"
  shows "\<exists>d. docs (machines (st m)) (Id_doc (doc m)) = Some d \<and>
             doc (fst (snd (Refresh m h))) = fst (unmarshal d h)"
  using assms
  by (auto simp: Refresh_def FindId_One_def Let_def split: option.splits prod.splits if_splits)

lemma SetInstanceId_success_writes_store:
  assumes "fst (SetInstanceId m i) = None"
  shows "\<exists>d. docs (machines (st (snd (SetInstanceId m i)))) (Id_doc (doc m)) = Some d \<and>
             InstanceId d = i"
    and "Id_doc (doc (snd (SetInstanceId m i))) = Id_doc (doc m)"
  using assms
  by (auto simp: SetInstanceId_def store_defs split: option.splits prod.splits if_splits)

text \<open>
  Writing any instance id and refreshing reads that instance id into the snapshot,
  whatever the snapshot of the refreshed handle held before.
\<close>

lemma SetInstanceId_Refresh_any_snapshot:
  assumes "fst (SetInstanceId m i) = None"
    and "st m' = st (snd (SetInstanceId m i))" and "Id_doc (doc m') = Id_doc (doc m)"
    and "fst (Refresh m' h) = None"
  shows "InstanceId (doc (fst (snd (Refresh m' h)))) = i"
proof -
  obtain d where d: "docs (machines (st m')) (Id_doc (doc m')) = Some d"
      "doc (fst (snd (Refresh m' h))) = fst (unmarshal d h)"
    using Refresh_success_reads_store [OF assms(4)] by blast
  obtain d' where d': "docs (machines (st (snd (SetInstanceId m i)))) (Id_doc (doc m)) = Some d'"
      "InstanceId d' = i"
    using SetInstanceId_success_writes_store(1) [OF assms(1)] by blast
  from d d' assms(2,3) have "d = d'" by simp
  with d d' show ?thesis by (simp add: InstanceId_unmarshal)
qed

lemma SetInstanceId_Refresh_general:
  assumes "fst (SetInstanceId m i) = None"
    and "fst (Refresh (snd (SetInstanceId m i)) h) = None"
  shows "InstanceId (doc (fst (snd (Refresh (snd (SetInstanceId m i)) h)))) = i"
  using SetInstanceId_Refresh_any_snapshot [OF assms(1) refl _ assms(2)]
    SetInstanceId_success_writes_store(2) [OF assms(1)]
  by simp

text \<open>
  Claim C5: for a machine whose document exists and is not \<open>Dead\<close>, when
  \<open>SetInstanceId("i-123")\<close> succeeds and the \<open>Refresh()\<close> that follows it succeeds,
  \<open>InstanceId()\<close> returns \<open>"i-123"\<close> and no error. The id comes back from the store:
  the refreshed handle \<open>m'\<close> is any handle of the same machine on the state the write
  left, be it the handle that wrote or one whose snapshot still holds something else.
  The two calls follow each other with no other writer in between.
\<close>

theorem SetInstanceId_Refresh_roundtrip:
  assumes "docs (machines (st m)) (Id_doc (doc m)) = Some d" and "Life d \<noteq> Dead"
    and "fst (SetInstanceId m ''i-123'') = None"
    and "st m' = st (snd (SetInstanceId m ''i-123''))" and "Id_doc (doc m') = Id_doc (doc m)"
    and "fst (Refresh m' h) = None"
  shows "InstanceId_M (fst (snd (Refresh m' h))) = Inr ''i-123''"
  using SetInstanceId_Refresh_any_snapshot [OF assms(3-6)] by (simp add: InstanceId_M_def)

text \<open>
  Machine 0, alive in the store. After the write through \<open>m0\<close>, the handle \<open>m_stale\<close>
  still reports \<open>i-old\<close>; refreshed, it reports \<open>i-123\<close>, and so does the handle that
  wrote.
\<close>

theorem SetInstanceId_Refresh_roundtrip_witness:
  "docs (machines (st m0)) (Id_doc (doc m0)) = Some doc0 \<and> Life doc0 \<noteq> Dead \<and>
   fst (SetInstanceId m0 ''i-123'') = None \<and>
   st m_stale = st (snd (SetInstanceId m0 ''i-123'')) \<and> Id_doc (doc m_stale) = Id_doc (doc m0) \<and>
   InstanceId_M m_stale = Inr ''i-old'' \<and>
   fst (Refresh m_stale h0) = None \<and>
   InstanceId_M (fst (snd (Refresh m_stale h0))) = Inr ''i-123'' \<and>
   fst (Refresh (snd (SetInstanceId m0 ''i-123'')) h0) = None \<and>
   InstanceId_M (fst (snd (Refresh (snd (SetInstanceId m0 ''i-123'')) h0))) = Inr ''i-123''"
proof -
  have a: "docs (machines (st m0)) (Id_doc (doc m0)) = Some doc0"
    by (simp add: example_defs)
  have b: "Life doc0 \<noteq> Dead"
    by (simp add: doc0_def)
  have c: "fst (SetInstanceId m0 ''i-123'') = None"
    by (simp add: SetInstanceId_def store_defs example_defs)
  have s: "st m_stale = st (snd (SetInstanceId m0 ''i-123''))"
    by (simp add: m_stale_def)
  have i: "Id_doc (doc m_stale) = Id_doc (doc m0)"
    by (simp add: m_stale_def example_defs)
  have old: "InstanceId_M m_stale = Inr ''i-old''"
    by (simp add: InstanceId_M_def m_stale_def)
  have r: "fst (Refresh m_stale h0) = None"
    by (simp add: Refresh_def SetInstanceId_def unmarshal_def m_stale_def store_defs example_defs)
  have s': "st (snd (SetInstanceId m0 ''i-123'')) = st (snd (SetInstanceId m0 ''i-123''))"
    by simp
  have i': "Id_doc (doc (snd (SetInstanceId m0 ''i-123''))) = Id_doc (doc m0)"
    by (rule SetInstanceId_success_writes_store(2) [OF c])
  have r': "fst (Refresh (snd (SetInstanceId m0 ''i-123'')) h0) = None"
    by (simp add: Refresh_def SetInstanceId_def unmarshal_def store_defs example_defs)
  show ?thesis
    using SetInstanceId_Refresh_roundtrip [OF a b c s i r]
      SetInstanceId_Refresh_roundtrip [OF a b c s' i' r'] a b c s i old r r'
    by simp
qed

text \<open>
  Claim C7: \<open>Refresh()\<close> looks the document up again. When the store answers and the
  document exists, the call succeeds and the whole snapshot is replaced: read back, it
  is the stored document. When the store answers and the document is gone, the result is
  the not-found error of the machine, and snapshot and memory are as before. In both
  cases one lookup was sent to the store.
\<close>

theorem Refresh_replaces_snapshot_or_NotFound:
  "(fault (st m) = None \<and> docs (machines (st m)) (Id_doc (doc m)) = Some d \<longrightarrow>
      fst (Refresh m h) = None \<and>
      contents (snd (snd (Refresh m h))) (doc (fst (snd (Refresh m h)))) = d) \<and>
   (fault (st m) = None \<and> docs (machines (st m)) (Id_doc (doc m)) = None \<longrightarrow>
      fst (Refresh m h) = Some (NotFoundError (''machine '' @ String m)) \<and>
      doc (fst (snd (Refresh m h))) = doc m \<and> snd (snd (Refresh m h)) = h) \<and>
   (fault (st m) = None \<longrightarrow>
      accesses (st (fst (snd (Refresh m h)))) =
        accesses (st m) @ [FindOne (Name (machines (st m))) (Id_doc (doc m))])"
  by (cases "docs (machines (st m)) (Id_doc (doc m))")
    (simp_all add: Refresh_found Refresh_missing contents_unmarshal)

text \<open>The handle of machine 0 on the store that holds it, and on the store that lost it.\<close>

theorem Refresh_replaces_snapshot_or_NotFound_witness:
  "fault (st m0) = None \<and> docs (machines (st m0)) (Id_doc (doc m0)) = Some doc0 \<and>
   fst (Refresh m0 h0) = None \<and>
   contents (snd (snd (Refresh m0 h0))) (doc (fst (snd (Refresh m0 h0)))) = doc0 \<and>
   fault (st m_gone) = None \<and> docs (machines (st m_gone)) (Id_doc (doc m_gone)) = None \<and>
   fst (Refresh m_gone h0) = Some (NotFoundError ''machine 0'') \<and>
   doc (fst (snd (Refresh m_gone h0))) = doc m_gone \<and> snd (snd (Refresh m_gone h0)) = h0 \<and>
   accesses (st (fst (snd (Refresh m_gone h0)))) = [FindOne ''machines'' 0]"
proof -
  have a: "fault (st m0) = None \<and> docs (machines (st m0)) (Id_doc (doc m0)) = Some doc0"
    by (simp add: example_defs)
  have b: "fault (st m_gone) = None \<and> docs (machines (st m_gone)) (Id_doc (doc m_gone)) = None"
    by (simp add: example_defs)
  have c: "String m_gone = ''0''"
    by (simp add: String_def Itoa_def digits.simps digit_def example_defs)
  have d: "accesses (st m_gone) = [] \<and> Name (machines (st m_gone)) = ''machines'' \<and>
           Id_doc (doc m_gone) = 0"
    by (simp add: example_defs)
  show ?thesis
    using Refresh_replaces_snapshot_or_NotFound [of m0 doc0 h0]
      Refresh_replaces_snapshot_or_NotFound [of m_gone doc0 h0] a b c d
    by simp
qed

text \<open>
  Claim C8: \<open>InstanceId()\<close> returns the not-found error exactly when the cached
  \<open>InstanceId\<close> is the empty string, and otherwise the cached value with no error. So
  after a successful \<open>SetInstanceId("")\<close> the accessor reports not-found instead of
  returning the empty string, and it still does after a successful \<open>Refresh()\<close>: the
  round trip of an instance id does not hold for the empty string.
\<close>

theorem InstanceId_NotFound_iff_empty:
  "(InstanceId (doc m) = '''' \<longleftrightarrow>
      InstanceId_M m = Inl (NotFoundError (''instance id for machine '' @ String m))) \<and>
   (InstanceId (doc m) \<noteq> '''' \<longrightarrow> InstanceId_M m = Inr (InstanceId (doc m))) \<and>
   (fst (SetInstanceId m '''') = None \<longrightarrow>
      InstanceId_M (snd (SetInstanceId m '''')) =
        Inl (NotFoundError (''instance id for machine '' @ String m))) \<and>
   (fst (SetInstanceId m '''') = None \<and> fst (Refresh (snd (SetInstanceId m '''')) h) = None \<longrightarrow>
      (\<exists>msg. InstanceId_M (fst (snd (Refresh (snd (SetInstanceId m '''')) h))) =
         Inl (NotFoundError msg)))"
proof -
  have "fst (SetInstanceId m '''') = None \<Longrightarrow>
        fst (Refresh (snd (SetInstanceId m '''')) h) = None \<Longrightarrow>
        \<exists>msg. InstanceId_M (fst (snd (Refresh (snd (SetInstanceId m '''')) h))) =
          Inl (NotFoundError msg)"
    using SetInstanceId_Refresh_general [of m "''''" h] by (simp add: InstanceId_M_def)
  moreover have "(InstanceId (doc m) = '''' \<longleftrightarrow>
      InstanceId_M m = Inl (NotFoundError (''instance id for machine '' @ String m))) \<and>
   (InstanceId (doc m) \<noteq> '''' \<longrightarrow> InstanceId_M m = Inr (InstanceId (doc m))) \<and>
   (fst (SetInstanceId m '''') = None \<longrightarrow>
      InstanceId_M (snd (SetInstanceId m '''')) =
        Inl (NotFoundError (''instance id for machine '' @ String m)))"
    by (auto simp: InstanceId_M_def SetInstanceId_def String_def split: prod.splits option.splits)
  ultimately show ?thesis by blast
qed

text \<open>
  A handle with the instance id \<open>i-1\<close>, and machine 0 after the empty id was written and
  after the refresh that follows.
\<close>

theorem InstanceId_NotFound_iff_empty_witness:
  "InstanceId (doc m_tools) \<noteq> '''' \<and> InstanceId_M m_tools = Inr ''i-1'' \<and>
   fst (SetInstanceId m0 '''') = None \<and>
   InstanceId_M (snd (SetInstanceId m0 '''')) = Inl (NotFoundError ''instance id for machine 0'') \<and>
   fst (Refresh (snd (SetInstanceId m0 '''')) h0) = None \<and>
   (\<exists>msg. InstanceId_M (fst (snd (Refresh (snd (SetInstanceId m0 '''')) h0))) =
      Inl (NotFoundError msg))"
proof -
  have ok: "fst (SetInstanceId m0 '''') = None"
    by (simp add: SetInstanceId_def store_defs example_defs)
  have refreshed: "fst (Refresh (snd (SetInstanceId m0 '''')) h0) = None"
    by (simp add: Refresh_def SetInstanceId_def unmarshal_def store_defs example_defs)
  have filled: "InstanceId (doc m_tools) = ''i-1''"
    by (simp add: example_defs)
  show ?thesis
    using InstanceId_NotFound_iff_empty [of m0 h0] InstanceId_NotFound_iff_empty [of m_tools h0]
      ok refreshed String_m0 filled by simp
qed

section \<open>The mutators\<close>

lemma SetInstanceId_accesses:
  "accesses (st (snd (SetInstanceId m i))) = accesses (st m) @ [RunTxn (txn m (set_instanceid i))]"
  using Run_accesses [of "txn m (set_instanceid i)" "st m"]
  by (cases "Run (txn m (set_instanceid i)) (st m)")
    (auto simp: SetInstanceId_def split: option.splits)

lemma SetInstanceId_failed:
  "fst (Run (txn m (set_instanceid i)) (st m)) \<noteq> None \<Longrightarrow>
   fst (SetInstanceId m i) \<noteq> None \<and> doc (snd (SetInstanceId m i)) = doc m"
  by (cases "Run (txn m (set_instanceid i)) (st m)") (auto simp: SetInstanceId_def)

lemma SetInstanceId_committed:
  "fst (Run (txn m (set_instanceid i)) (st m)) = None \<Longrightarrow>
   fst (SetInstanceId m i) = None \<and> InstanceId (doc (snd (SetInstanceId m i))) = i"
  by (cases "Run (txn m (set_instanceid i)) (st m)") (auto simp: SetInstanceId_def)

text \<open>\<open>SetAgentTools\<close> once the tools passed the check of series and architecture.\<close>

lemma SetAgentTools_valid:
  "Series (cells h a) \<noteq> '''' \<Longrightarrow> Arch (cells h a) \<noteq> '''' \<Longrightarrow>
   SetAgentTools m (Some a) h =
     (case Run (txn m (set_tools (cells h a))) (st m) of
        (Some err, s) \<Rightarrow>
          (Return (Some (Wrap (''cannot set agent tools for machine '' @ String m)
                           (onAbort err errNotAlive))), m\<lparr>st := s\<rparr>, h)
      | (None, s) \<Rightarrow>
          (Return None, m\<lparr>st := s, doc := (doc m)\<lparr>Tools := Some (top h)\<rparr>\<rparr>,
           h\<lparr>cells := (cells h)(top h := cells h a), top := Suc (top h)\<rparr>))"
  by (simp add: SetAgentTools_def Let_def ErrorContextf_def new_def
      split: prod.splits option.splits)

lemma SetAgentTools_accesses:
  "Series (cells h a) \<noteq> '''' \<Longrightarrow> Arch (cells h a) \<noteq> '''' \<Longrightarrow>
   accesses (st (fst (snd (SetAgentTools m (Some a) h)))) =
     accesses (st m) @ [RunTxn (txn m (set_tools (cells h a)))]"
  using Run_accesses [of "txn m (set_tools (cells h a))" "st m"]
  by (cases "Run (txn m (set_tools (cells h a))) (st m)")
    (auto simp: SetAgentTools_valid split: option.splits)

lemma SetAgentTools_failed:
  "Series (cells h a) \<noteq> '''' \<Longrightarrow> Arch (cells h a) \<noteq> '''' \<Longrightarrow>
   fst (Run (txn m (set_tools (cells h a))) (st m)) \<noteq> None \<Longrightarrow>
   (\<exists>e. fst (SetAgentTools m (Some a) h) = Return (Some e)) \<and>
   doc (fst (snd (SetAgentTools m (Some a) h))) = doc m \<and>
   snd (snd (SetAgentTools m (Some a) h)) = h"
  by (cases "Run (txn m (set_tools (cells h a))) (st m)") (auto simp: SetAgentTools_valid)

lemma SetAgentTools_committed:
  "Series (cells h a) \<noteq> '''' \<Longrightarrow> Arch (cells h a) \<noteq> '''' \<Longrightarrow>
   fst (Run (txn m (set_tools (cells h a))) (st m)) = None \<Longrightarrow>
   fst (SetAgentTools m (Some a) h) = Return None \<and>
   (\<exists>p. Tools (doc (fst (snd (SetAgentTools m (Some a) h)))) = Some p \<and>
        cells (snd (snd (SetAgentTools m (Some a) h))) p = cells h a)"
  by (cases "Run (txn m (set_tools (cells h a))) (st m)") (auto simp: SetAgentTools_valid)

text \<open>
  Claim C4: \<open>SetInstanceId\<close>, and \<open>SetAgentTools\<close> for tools that pass its check, send the
  store exactly one transaction, made of one operation on the machine's document that
  asserts \<open>notDead\<close>. When the runner returns an error for it, the mutator returns an
  error and the snapshot (for \<open>SetAgentTools\<close> also the memory) is as before. When the
  runner succeeds, the mutator succeeds and the cached field is what was written: the
  instance id, or a pointer to an object equal to the tools passed in.
\<close>

theorem mutators_update_snapshot_after_commit:
  "accesses (st (snd (SetInstanceId m i))) =
     accesses (st m) @ [RunTxn (txn m (set_instanceid i))] \<and>
   (fst (Run (txn m (set_instanceid i)) (st m)) \<noteq> None \<longrightarrow>
      fst (SetInstanceId m i) \<noteq> None \<and> doc (snd (SetInstanceId m i)) = doc m) \<and>
   (fst (Run (txn m (set_instanceid i)) (st m)) = None \<longrightarrow>
      fst (SetInstanceId m i) = None \<and> InstanceId (doc (snd (SetInstanceId m i))) = i) \<and>
   (Series (cells h a) \<noteq> '''' \<and> Arch (cells h a) \<noteq> '''' \<longrightarrow>
      accesses (st (fst (snd (SetAgentTools m (Some a) h)))) =
        accesses (st m) @ [RunTxn (txn m (set_tools (cells h a)))] \<and>
      (fst (Run (txn m (set_tools (cells h a))) (st m)) \<noteq> None \<longrightarrow>
         (\<exists>e. fst (SetAgentTools m (Some a) h) = Return (Some e)) \<and>
         doc (fst (snd (SetAgentTools m (Some a) h))) = doc m \<and>
         snd (snd (SetAgentTools m (Some a) h)) = h) \<and>
      (fst (Run (txn m (set_tools (cells h a))) (st m)) = None \<longrightarrow>
         fst (SetAgentTools m (Some a) h) = Return None \<and>
         (\<exists>p. Tools (doc (fst (snd (SetAgentTools m (Some a) h)))) = Some p \<and>
              cells (snd (snd (SetAgentTools m (Some a) h))) p = cells h a)))"
  using SetInstanceId_accesses [of m i] SetInstanceId_failed [of m i]
    SetInstanceId_committed [of m i] SetAgentTools_accesses [of h a m]
    SetAgentTools_failed [of h a m] SetAgentTools_committed [of h a m]
  by blast

text \<open>
  Both mutators on machine 0 with a runner that commits; \<open>SetInstanceId\<close> on the dead
  machine, where the transaction aborts; \<open>SetAgentTools\<close> on the unreachable store.
\<close>

theorem mutators_update_snapshot_after_commit_witness:
  "fst (Run (txn m0 (set_instanceid ''i-123'')) (st m0)) = None \<and>
   fst (SetInstanceId m0 ''i-123'') = None \<and>
   InstanceId (doc (snd (SetInstanceId m0 ''i-123''))) = ''i-123'' \<and>
   fst (Run (txn m_dead (set_instanceid ''i-123'')) (st m_dead)) = Some ErrAborted \<and>
   fst (SetInstanceId m_dead ''i-123'') \<noteq> None \<and>
   doc (snd (SetInstanceId m_dead ''i-123'')) = doc m_dead \<and>
   Series (cells h2 0) \<noteq> '''' \<and> Arch (cells h2 0) \<noteq> '''' \<and>
   fst (Run (txn m0 (set_tools (cells h2 0))) (st m0)) = None \<and>
   fst (SetAgentTools m0 (Some 0) h2) = Return None \<and>
   (\<exists>p. Tools (doc (fst (snd (SetAgentTools m0 (Some 0) h2)))) = Some p \<and>
        cells (snd (snd (SetAgentTools m0 (Some 0) h2))) p = tools0) \<and>
   fst (Run (txn m_down (set_tools (cells h2 0))) (st m_down)) =
     Some (External ''connection refused'') \<and>
   (\<exists>e. fst (SetAgentTools m_down (Some 0) h2) = Return (Some e)) \<and>
   doc (fst (snd (SetAgentTools m_down (Some 0) h2))) = doc m_down \<and>
   snd (snd (SetAgentTools m_down (Some 0) h2)) = h2"
proof -
  have a: "fst (Run (txn m0 (set_instanceid ''i-123'')) (st m0)) = None"
    by (simp add: store_defs example_defs)
  have b: "fst (Run (txn m_dead (set_instanceid ''i-123'')) (st m_dead)) = Some ErrAborted"
    by (simp add: store_defs example_defs)
  have c: "cells h2 0 = tools0"
    by (simp add: example_defs)
  have d: "Series tools0 \<noteq> '''' \<and> Arch tools0 \<noteq> ''''"
    by (simp add: tools0_def)
  have e: "fst (Run (txn m0 (set_tools tools0)) (st m0)) = None"
    by (simp add: store_defs example_defs)
  have f: "fst (Run (txn m_down (set_tools tools0)) (st m_down)) =
             Some (External ''connection refused'')"
    by (simp add: store_defs example_defs)
  show ?thesis
    using mutators_update_snapshot_after_commit [of m0 "''i-123''" h2 0]
      mutators_update_snapshot_after_commit [of m_dead "''i-123''" h2 0]
      mutators_update_snapshot_after_commit [of m_down "''i-123''" h2 0]
      a b c d e f
    by simp
qed

section \<open>Validation\<close>

text \<open>
  Claim C6: a malformed application name makes \<open>WatchRemoteApplication\<close> return the
  not-valid error with the state as it was, so no request went to the facade; tools with
  an empty series or an empty architecture make \<open>SetAgentTools\<close> return an error with
  handle and memory as they were, so no transaction went to the store.
\<close>

theorem validation_before_any_access:
  "(\<not> IsValidApplication service \<longrightarrow>
      WatchRemoteApplication IsValidApplication s service =
        (Inl (NotValid ''application name %q'' service), s) \<and>
      requests (facade (snd (WatchRemoteApplication IsValidApplication s service))) =
        requests (facade s)) \<and>
   (Series (cells h a) = '''' \<or> Arch (cells h a) = '''' \<longrightarrow>
      SetAgentTools m (Some a) h =
        (Return (Some (Wrap (''cannot set agent tools for machine '' @ String m)
                         (Errorf ''empty series or arch''))), m, h) \<and>
      accesses (st (fst (snd (SetAgentTools m (Some a) h)))) = accesses (st m))"
  by (auto simp: WatchRemoteApplication_def SetAgentTools_def Let_def ErrorContextf_def)

text \<open>A name with a capital and a space, and the tools at address 1, which have no series.\<close>

theorem validation_before_any_access_witness:
  "\<not> valid_application_name ''My App'' \<and>
   WatchRemoteApplication valid_application_name (facade_with (Inr [result_ok])) ''My App'' =
     (Inl (NotValid ''application name %q'' ''My App''), facade_with (Inr [result_ok])) \<and>
   requests (facade (snd (WatchRemoteApplication valid_application_name
      (facade_with (Inr [result_ok])) ''My App''))) = [] \<and>
   Series (cells h2 1) = '''' \<and>
   SetAgentTools m0 (Some 1) h2 =
     (Return (Some (Wrap ''cannot set agent tools for machine 0''
        (Errorf ''empty series or arch''))), m0, h2) \<and>
   accesses (st (fst (snd (SetAgentTools m0 (Some 1) h2)))) = []"
proof -
  have a: "\<not> valid_application_name ''My App''"
    by (simp add: valid_application_name_def lower_def)
  have b: "Series (cells h2 1) = ''''"
    by (simp add: example_defs)
  have d: "requests (facade (facade_with (Inr [result_ok]))) = [] \<and> accesses (st m0) = []"
    by (simp add: facade_with_def example_defs)
  show ?thesis
    using validation_before_any_access
      [of valid_application_name "''My App''" "facade_with (Inr [result_ok])" h2 1 m0]
      a b String_m0 d
    by simp
qed

section \<open>The agent tools\<close>

text \<open>
  Claim C9: \<open>AgentTools()\<close> returns an error exactly when the cached \<open>Tools\<close> pointer is
  nil, and that error is a not-found error. Otherwise, for a pointer to an object in
  use, it returns no error and a pointer to a new object that holds the same value; an
  assignment through the returned pointer leaves every object that was in use before
  the call as it was, the one the handle points to among them.
\<close>

theorem AgentTools_NotFound_iff_nil_else_copy:
  "(Tools (doc m) = None \<longleftrightarrow> (\<exists>msg. fst (AgentTools m h) = Inl (NotFoundError msg))) \<and>
   (Tools (doc m) = None \<longleftrightarrow> (\<exists>e. fst (AgentTools m h) = Inl e)) \<and>
   (Tools (doc m) = Some a \<and> a < top h \<longrightarrow>
      (\<exists>p. fst (AgentTools m h) = Inr p \<and> p \<noteq> a \<and>
           cells (snd (AgentTools m h)) p = cells h a \<and>
           (\<forall>b v. b < top h \<longrightarrow> cells (assign p v (snd (AgentTools m h))) b = cells h b)))"
  by (cases "Tools (doc m)") (auto simp: AgentTools_def new_def assign_def)

text \<open>
  A handle that points to the tools at address 0 of a heap with two objects: the copy
  is made at address 2, and overwriting it leaves address 0 alone. Machine 0 has no
  tools.
\<close>

theorem AgentTools_NotFound_iff_nil_else_copy_witness:
  "Tools (doc m_tools) = Some 0 \<and> (0::nat) < top h2 \<and>
   fst (AgentTools m_tools h2) = Inr 2 \<and>
   cells (snd (AgentTools m_tools h2)) 2 = tools0 \<and>
   cells (assign 2 tools_no_series (snd (AgentTools m_tools h2))) 0 = tools0 \<and>
   Tools (doc m0) = None \<and>
   fst (AgentTools m0 h2) = Inl (NotFoundError ''agent tools for machine 0'')"
proof -
  have a: "Tools (doc m_tools) = Some 0 \<and> (0::nat) < top h2 \<and> cells h2 0 = tools0"
    by (simp add: example_defs)
  have b: "Tools (doc m0) = None"
    by (simp add: example_defs)
  have c: "fst (AgentTools m_tools h2) = Inr 2"
    by (simp add: AgentTools_def example_defs)
  have d: "fst (AgentTools m0 h2) = Inl (NotFoundError ''agent tools for machine 0'')"
    by (simp add: AgentTools_def String_def Itoa_def digits.simps digit_def example_defs)
  show ?thesis
    using AgentTools_NotFound_iff_nil_else_copy [of m_tools h2 0]
      AgentTools_NotFound_iff_nil_else_copy [of m0 h2 0] a b c d
    by auto
qed

section \<open>Watching a remote application\<close>

lemma WatchRemoteApplication_answered:
  "IsValidApplication service \<Longrightarrow>
   server (facade s) ''WatchRemoteApplication'' [\<lparr>Tag = ApplicationTag service\<rparr>] = Inr results \<Longrightarrow>
   fst (WatchRemoteApplication IsValidApplication s service) =
     (if length results \<noteq> 1
      then Inl (Errorf (''expected 1 result, got '' @ Itoa (int (length results))))
      else (case Error (results ! 0) of
              Some e \<Rightarrow> Inl (ParamsError e)
            | None \<Rightarrow> Inr (NewApplicationRelationsWatcher (results ! 0))))"
  by (simp add: WatchRemoteApplication_def FacadeCall_def Let_def split: option.splits)

text \<open>
  Claim C10: for a valid name, when the facade call itself returns no error,
  \<open>WatchRemoteApplication\<close> returns an error if the number of results is not one, returns
  the error of the result if the single result carries one, and returns a watcher built
  from the result if the single result carries none; a watcher is returned in no other
  case.
\<close>

theorem WatchRemoteApplication_one_result:
  assumes "IsValidApplication service"
    and "server (facade s) ''WatchRemoteApplication'' [\<lparr>Tag = ApplicationTag service\<rparr>] =
           Inr results"
  shows "(length results \<noteq> 1 \<longrightarrow>
            fst (WatchRemoteApplication IsValidApplication s service) =
              Inl (Errorf (''expected 1 result, got '' @ Itoa (int (length results))))) \<and>
         (\<forall>r e. results = [r] \<and> Error r = Some e \<longrightarrow>
            fst (WatchRemoteApplication IsValidApplication s service) = Inl (ParamsError e)) \<and>
         (\<forall>r. results = [r] \<and> Error r = None \<longrightarrow>
            fst (WatchRemoteApplication IsValidApplication s service) =
              Inr (NewApplicationRelationsWatcher r)) \<and>
         (\<forall>w. fst (WatchRemoteApplication IsValidApplication s service) = Inr w \<longrightarrow>
            (\<exists>r. results = [r] \<and> Error r = None \<and> w = NewApplicationRelationsWatcher r))"
proof -
  have one: "length results = 1 \<Longrightarrow> results = [results ! 0]"
    by (cases results) auto
  show ?thesis
    unfolding WatchRemoteApplication_answered [of IsValidApplication service s results, OF assms]
    using one by (auto split: option.splits)
qed

text \<open>
  The application \<open>mysql\<close> against servers that answer with no result, with two
  results, with one result that carries an error, and with one result that carries none.
\<close>

theorem WatchRemoteApplication_one_result_witness:
  "valid_application_name ''mysql'' \<and>
   fst (WatchRemoteApplication valid_application_name (facade_with (Inr [])) ''mysql'') =
     Inl (Errorf ''expected 1 result, got 0'') \<and>
   fst (WatchRemoteApplication valid_application_name
          (facade_with (Inr [result_ok, result_ok])) ''mysql'') =
     Inl (Errorf ''expected 1 result, got 2'') \<and>
   fst (WatchRemoteApplication valid_application_name (facade_with (Inr [result_err])) ''mysql'') =
     Inl (ParamsError (params_Error ''permission denied'' ''unauthorized access'')) \<and>
   fst (WatchRemoteApplication valid_application_name (facade_with (Inr [result_ok])) ''mysql'') =
     Inr (NewApplicationRelationsWatcher result_ok)"
proof -
  have v: "valid_application_name ''mysql''"
    by (simp add: valid_application_name_def lower_def lower_or_digit_def)
  have s: "server (facade (facade_with (Inr rs))) ''WatchRemoteApplication''
             [\<lparr>Tag = ApplicationTag ''mysql''\<rparr>] = Inr rs" for rs
    by (simp add: facade_with_def)
  note none = WatchRemoteApplication_one_result
    [of valid_application_name "''mysql''" "facade_with (Inr [])" "[]", OF v s]
  note two = WatchRemoteApplication_one_result
    [of valid_application_name "''mysql''" "facade_with (Inr [result_ok, result_ok])"
      "[result_ok, result_ok]", OF v s]
  note failed = WatchRemoteApplication_one_result
    [of valid_application_name "''mysql''" "facade_with (Inr [result_err])" "[result_err]",
      OF v s]
  note one = WatchRemoteApplication_one_result
    [of valid_application_name "''mysql''" "facade_with (Inr [result_ok])" "[result_ok]",
      OF v s]
  have n0: "''expected 1 result, got '' @
              Itoa (int (length ([] :: ApplicationRelationsWatchResult list))) =
            ''expected 1 result, got 0''"
    by (simp add: Itoa_def digits.simps digit_def)
  have n2: "''expected 1 result, got '' @ Itoa (int (length [result_ok, result_ok])) =
            ''expected 1 result, got 2''"
    by (simp add: Itoa_def digits.simps digit_def)
  have "fst (WatchRemoteApplication valid_application_name (facade_with (Inr [])) ''mysql'') =
          Inl (Errorf ''expected 1 result, got 0'')"
    using none [THEN conjunct1] unfolding n0 by simp
  moreover have "fst (WatchRemoteApplication valid_application_name
            (facade_with (Inr [result_ok, result_ok])) ''mysql'') =
          Inl (Errorf ''expected 1 result, got 2'')"
    using two [THEN conjunct1] unfolding n2 by simp
  moreover have "fst (WatchRemoteApplication valid_application_name
            (facade_with (Inr [result_err])) ''mysql'') =
          Inl (ParamsError (params_Error ''permission denied'' ''unauthorized access''))"
    using failed [THEN conjunct2, THEN conjunct1, rule_format,
        of result_err "params_Error ''permission denied'' ''unauthorized access''"]
    by (simp add: result_err_def)
  moreover have "fst (WatchRemoteApplication valid_application_name
            (facade_with (Inr [result_ok])) ''mysql'') =
          Inr (NewApplicationRelationsWatcher result_ok)"
    using one [THEN conjunct2, THEN conjunct2, THEN conjunct1, rule_format, of result_ok]
    by (simp add: result_ok_def)
  ultimately show ?thesis using v by simp
qed

end
